theory Spec2Isabelle
  imports Complex_Main "HOL-Library.Word"
begin

section \<open>The scalar type \<open>float\<close>\<close>

text \<open>
  \<open>vector_t<T>::pack<Args...>\<close> of \<open>vector.hh\<close> is generic in its scalar type \<open>T\<close>
  (integral or floating point). The generic methods below are polymorphic in \<open>T\<close>; the
  "CS:GO methods" demand \<open>T = float\<close> by \<open>static_assert\<close>.

  A \<open>float\<close> is a finite number, one of the two infinities, or a NaN. Arithmetic on
  finite numbers is exact here: the rounding, overflow and underflow of binary32 are not
  part of this model, and the two zeros are one value. (The header calls \<open>sqrt\<close> and
  \<open>atan2\<close> unqualified and multiplies by the \<open>double\<close> \<open>180.F / M_PI\<close>, so which
  operations round to \<open>float\<close> and which to \<open>double\<close> depends on the library.) What
  IEEE 754 computes without rounding (comparison, negation, \<open>remainderf\<close>, \<open>std::clamp\<close>,
  storing a constant) is modelled as it is, together with the rules for infinities and
  NaN. The theorems below are about which components a method reads and writes, in which
  order and under which tests; they take no advantage of the exact arithmetic beyond the
  values \<open>sqrt 25 = 5\<close>, \<open>3 / 5\<close> and \<open>4 / 5\<close> of the examples.
\<close>

datatype float = Fin real | PInf | NInf | NaN

instantiation float :: "{zero, plus, times}"
begin

definition zero_float :: float where
  "zero_float = Fin 0"

fun plus_float :: "float \<Rightarrow> float \<Rightarrow> float" where
  "plus_float NaN _ = NaN"
| "plus_float _ NaN = NaN"
| "plus_float PInf NInf = NaN"
| "plus_float NInf PInf = NaN"
| "plus_float PInf _ = PInf"
| "plus_float _ PInf = PInf"
| "plus_float NInf _ = NInf"
| "plus_float _ NInf = NInf"
| "plus_float (Fin a) (Fin b) = Fin (a + b)"

fun times_float :: "float \<Rightarrow> float \<Rightarrow> float" where
  "times_float NaN _ = NaN"
| "times_float _ NaN = NaN"
| "times_float (Fin a) (Fin b) = Fin (a * b)"
| "times_float (Fin a) PInf = (if a = 0 then NaN else if 0 < a then PInf else NInf)"
| "times_float (Fin a) NInf = (if a = 0 then NaN else if 0 < a then NInf else PInf)"
| "times_float PInf (Fin b) = (if b = 0 then NaN else if 0 < b then PInf else NInf)"
| "times_float NInf (Fin b) = (if b = 0 then NaN else if 0 < b then NInf else PInf)"
| "times_float PInf PInf = PInf"
| "times_float PInf NInf = NInf"
| "times_float NInf PInf = NInf"
| "times_float NInf NInf = PInf"

instance ..

end

text \<open>Unary minus.\<close>

fun fneg :: "float \<Rightarrow> float" where
  "fneg (Fin a) = Fin (- a)"
| "fneg PInf = NInf"
| "fneg NInf = PInf"
| "fneg NaN = NaN"

text \<open>
  Division. A finite zero divisor is taken as \<open>+0\<close>; the methods below divide only
  after testing the divisor against zero.
\<close>

fun fdiv :: "float \<Rightarrow> float \<Rightarrow> float" where
  "fdiv NaN _ = NaN"
| "fdiv _ NaN = NaN"
| "fdiv (Fin a) (Fin b) =
     (if b = 0 then (if a = 0 then NaN else if 0 < a then PInf else NInf)
      else Fin (a / b))"
| "fdiv (Fin a) PInf = Fin 0"
| "fdiv (Fin a) NInf = Fin 0"
| "fdiv PInf (Fin b) = (if 0 \<le> b then PInf else NInf)"
| "fdiv NInf (Fin b) = (if 0 \<le> b then NInf else PInf)"
| "fdiv PInf PInf = NaN"
| "fdiv PInf NInf = NaN"
| "fdiv NInf PInf = NaN"
| "fdiv NInf NInf = NaN"

fun fsqrt :: "float \<Rightarrow> float" where
  "fsqrt (Fin a) = (if 0 \<le> a then Fin (sqrt a) else NaN)"
| "fsqrt PInf = PInf"
| "fsqrt NInf = NaN"
| "fsqrt NaN = NaN"

text \<open>The comparisons \<open>==\<close>, \<open>!=\<close>, \<open><\<close> and \<open>>\<close>: every comparison with a NaN is
  false, except \<open>!=\<close>, which is true.\<close>

fun feq :: "float \<Rightarrow> float \<Rightarrow> bool" where
  "feq (Fin a) (Fin b) = (a = b)"
| "feq PInf PInf = True"
| "feq NInf NInf = True"
| "feq _ _ = False"

definition fne :: "float \<Rightarrow> float \<Rightarrow> bool" where
  "fne a b = (\<not> feq a b)"

fun flt :: "float \<Rightarrow> float \<Rightarrow> bool" where
  "flt NaN _ = False"
| "flt _ NaN = False"
| "flt (Fin a) (Fin b) = (a < b)"
| "flt _ NInf = False"
| "flt PInf _ = False"
| "flt NInf _ = True"
| "flt _ PInf = True"

definition fgt :: "float \<Rightarrow> float \<Rightarrow> bool" where
  "fgt a b = flt b a"

text \<open>\<open>std::isfinite\<close>.\<close>

fun isfinite :: "float \<Rightarrow> bool" where
  "isfinite (Fin a) = True"
| "isfinite _ = False"

text \<open>
  \<open>std::remainderf x y\<close> is the IEEE 754 remainder \<open>x - n * y\<close>, where \<open>n\<close> is the
  integer nearest to the exact quotient \<open>x / y\<close>, the even one when two are equally near.
  IEEE 754 computes it without rounding error.
\<close>

definition nearest_even :: "real \<Rightarrow> int" where
  "nearest_even q =
     (let f = \<lfloor>q\<rfloor>; d = q - of_int f
      in if d < 1 / 2 then f
         else if 1 / 2 < d then f + 1
         else if even f then f else f + 1)"

fun remainderf :: "float \<Rightarrow> float \<Rightarrow> float" where
  "remainderf (Fin a) (Fin b) =
     (if b = 0 then NaN else Fin (a - of_int (nearest_even (a / b)) * b))"
| "remainderf (Fin a) PInf = Fin a"
| "remainderf (Fin a) NInf = Fin a"
| "remainderf _ _ = NaN"

text \<open>
  \<open>std::clamp<float> v lo hi\<close>, as the C++ standard library defines it through \<open><\<close>:
  \<open>lo\<close> when \<open>v < lo\<close>, \<open>hi\<close> when \<open>hi < v\<close>, and \<open>v\<close> otherwise.
\<close>

definition clamp :: "float \<Rightarrow> float \<Rightarrow> float \<Rightarrow> float" where
  "clamp v lo hi = (if flt v lo then lo else if flt hi v then hi else v)"

text \<open>
  \<open>atan2 y x\<close> of the C library, with the special cases of Annex F of the C standard;
  a zero is taken as \<open>+0\<close>.
\<close>

fun atan2 :: "float \<Rightarrow> float \<Rightarrow> float" where
  "atan2 NaN _ = NaN"
| "atan2 _ NaN = NaN"
| "atan2 (Fin y) (Fin x) =
     (if 0 < x then Fin (arctan (y / x))
      else if x < 0 then (if 0 \<le> y then Fin (arctan (y / x) + pi) else Fin (arctan (y / x) - pi))
      else if 0 < y then Fin (pi / 2)
      else if y < 0 then Fin (- (pi / 2))
      else Fin 0)"
| "atan2 (Fin y) PInf = Fin 0"
| "atan2 (Fin y) NInf = (if 0 \<le> y then Fin pi else Fin (- pi))"
| "atan2 PInf (Fin x) = Fin (pi / 2)"
| "atan2 NInf (Fin x) = Fin (- (pi / 2))"
| "atan2 PInf PInf = Fin (pi / 4)"
| "atan2 NInf PInf = Fin (- (pi / 4))"
| "atan2 PInf NInf = Fin (3 * pi / 4)"
| "atan2 NInf NInf = Fin (- (3 * pi / 4))"

text \<open>\<open>M_PI\<close> of \<open><corecrt_math_defines.h>\<close>.\<close>

definition M_PI :: float where
  "M_PI = Fin pi"


section \<open>The pack\<close>

text \<open>
  A \<open>pack<Args...>\<close> holds \<open>std::array<T, Len> m_contents\<close>, with \<open>Len = sizeof...(Args)\<close>
  fixed by the type. It is modelled by the list of its \<open>Len\<close> scalars, so \<open>Len\<close> is the
  length of that list, and two packs of one C++ type have lists of one length.
\<close>

type_synonym 'a pack = "'a list"

text \<open>
  What can go wrong: a \<open>static_assert\<close> rejects the instantiation when the program is
  compiled, and so does an assignment whose left operand is not an lvalue; an \<open>assert\<close>
  aborts the run, and \<open>operator[]\<close> of \<open>std::array\<close> beyond \<open>Len\<close> is undefined
  behaviour.
\<close>

datatype failure =
  Static_assert_failed | Assignment_to_prvalue | Assertion_failed | Out_of_range

definition and_then :: "failure + 'a \<Rightarrow> ('a \<Rightarrow> failure + 'b) \<Rightarrow> failure + 'b" where
  "and_then r f = (case r of Inl e \<Rightarrow> Inl e | Inr x \<Rightarrow> f x)"

text \<open>Modelled from the spec: the axis constants \<open>PITCH\<close>, \<open>YAW\<close> and \<open>ROLL\<close> of the
  missing header \<open>enums.hh\<close>; the spec fixes them as the indices 0, 1 and 2.\<close>

definition PITCH :: nat where "PITCH = 0"
definition YAW :: nat where "YAW = 1"
definition ROLL :: nat where "ROLL = 2"

definition get_size :: "'a pack \<Rightarrow> nat" where
  "get_size this = length this"

definition get_contents :: "'a pack \<Rightarrow> 'a list" where
  "get_contents this = this"

text \<open>\<open>at\<close>: the index operator behind \<open>assert( i < Len )\<close>.\<close>

definition at_pack :: "'a pack \<Rightarrow> nat \<Rightarrow> failure + 'a" where
  "at_pack this i = (if \<not> i < length this then Inl Assertion_failed else Inr (this ! i))"


section \<open>Mathematical methods\<close>

text \<open>
  \<^verbatim>\<open>
  template <size_t N = Len>
  auto get_dot( )const->T
  {
      static_assert( N <= Len );
      const auto &contents = get_contents( );
      auto result          = T{};
      for( auto i = size_t{ 0 }; i < N; ++i )
          result += contents[ i ] * contents[ i ];
      return result;
  }
  template <size_t N = Len>
  auto get_length( )const { return sqrt( get_dot<N>( ) ); }
  \<close>
  Each such loop starts from \<open>T{}\<close> and is a left fold over the indices
  \<open>0, ..., N - 1\<close>.
\<close>

definition get_dot :: "nat \<Rightarrow> ('a :: {zero, plus, times}) pack \<Rightarrow> failure + 'a" where
  "get_dot N this =
     (if \<not> N \<le> length this then Inl Static_assert_failed
      else
        let contents = get_contents this
        in Inr (foldl (\<lambda>result i. result + contents ! i * contents ! i) 0 [0 ..< N]))"

definition get_length :: "nat \<Rightarrow> float pack \<Rightarrow> failure + float" where
  "get_length N this = and_then (get_dot N this) (\<lambda>d. Inr (fsqrt d))"

text \<open>\<open>dot( T arg )\<close>.\<close>

definition dot_scalar :: "nat \<Rightarrow> ('a :: {zero, plus, times}) pack \<Rightarrow> 'a \<Rightarrow> failure + 'a" where
  "dot_scalar N this arg =
     (if \<not> N \<le> length this then Inl Static_assert_failed
      else
        let contents = get_contents this
        in Inr (foldl (\<lambda>result i. result + contents ! i * arg) 0 [0 ..< N]))"

text \<open>
  \<^verbatim>\<open>
  template <size_t N = Len>
  auto dot( const pack &arg )const->T
  {
      static_assert( N <= Len );
      assert( arg.get_size( ) <= N );
      const auto &arg_contents = get_contents( );
      const auto &contents     = get_contents( );
      auto result              = T{};
      for( auto i = size_t{ 0 }; i < N; ++i )
          result += contents[ i ] * arg_contents[ i ];
      return result;
  }
  \<close>
  Both \<open>arg_contents\<close> and \<open>contents\<close> are initialised by \<open>get_contents( )\<close> of the
  receiver, and the assertion is \<open>arg.get_size( ) <= N\<close>.
\<close>

definition dot :: "nat \<Rightarrow> ('a :: {zero, plus, times}) pack \<Rightarrow> 'a pack \<Rightarrow> failure + 'a" where
  "dot N this arg =
     (if \<not> N \<le> length this then Inl Static_assert_failed
      else if \<not> get_size arg \<le> N then Inl Assertion_failed
      else
        let arg_contents = get_contents this;
            contents = get_contents this
        in Inr (foldl (\<lambda>result i. result + contents ! i * arg_contents ! i) 0 [0 ..< N]))"

text \<open>The dot product as the specification words it: the sum over \<open>i\<close> in \<open>[0, K)\<close> of
  \<open>component[i] * other[i]\<close>.\<close>

definition spec_dot :: "nat \<Rightarrow> ('a :: comm_semiring_0) list \<Rightarrow> 'a list \<Rightarrow> 'a" where
  "spec_dot K a b = (\<Sum>i < K. a ! i * b ! i)"


section \<open>Objects\<close>

text \<open>
  The in-place methods write through \<open>this\<close>, and the others return a pack by value, so
  the packs of a program are kept in a memory: the object at address \<open>a\<close> is the
  \<open>a\<close>-th entry. A local or returned pack is a new object at the next free address
  (objects are never removed, also when a local goes out of scope). A method is called
  on a live object: \<open>this\<close> is below the length of the memory.
\<close>

type_synonym 'a memory = "'a pack list"

definition new_object :: "'a pack \<Rightarrow> 'a memory \<Rightarrow> nat \<times> 'a memory" where
  "new_object v s = (length s, s @ [v])"

text \<open>\<open>operator[]\<close> on the object at \<open>this\<close>: reading the scalar, and assigning through
  the reference that the non-const overload returns.\<close>

definition elem :: "nat \<Rightarrow> nat \<Rightarrow> 'a memory \<Rightarrow> 'a" where
  "elem this i s = s ! this ! i"

definition assign :: "nat \<Rightarrow> nat \<Rightarrow> 'a \<Rightarrow> 'a memory \<Rightarrow> 'a memory" where
  "assign this i x s = s[this := (s ! this)[i := x]]"

text \<open>
  The const overload, \<open>auto operator[ ]( const size_t i )const->T\<close>, returns the scalar by
  value: the call is a prvalue of type \<open>T\<close>. The operators \<open>=\<close> and \<open>/=\<close> on a
  \<open>float\<close> demand a modifiable lvalue on their left, so an assignment to such a call is
  ill-formed and the method that holds it is rejected when it is instantiated, whatever
  value \<open>x\<close> was to be stored.
\<close>

definition elem_const :: "'a pack \<Rightarrow> nat \<Rightarrow> 'a" where
  "elem_const this i = this ! i"

definition assign_prvalue :: "'a \<Rightarrow> failure + unit" where
  "assign_prvalue x = Inl Assignment_to_prvalue"

text \<open>\<open>get_copy\<close>: \<open>auto _this = *this; return _this;\<close>.\<close>

definition get_copy :: "nat \<Rightarrow> 'a memory \<Rightarrow> nat \<times> 'a memory" where
  "get_copy this s = new_object (s ! this) s"


section \<open>CS:GO methods, first variant\<close>

text \<open>
  Each of these methods, \<open>get_angle\<close> apart, starts with
  \<open>static_assert( std::is_same_v<T, float> )\<close>, which is the type of the model, and
  \<open>static_assert( Len == 3U )\<close>.
  \<^verbatim>\<open>
  auto normalize_angle( )->void
  {
      operator[]( PITCH ) = std::isfinite( operator[]( PITCH ) )
                              ? std::remainderf( operator[]( PITCH ), 360.F ) : 0.F;
      operator[]( YAW )   = std::isfinite( operator[]( YAW ) )
                              ? std::remainderf( operator[]( YAW ), 360.F ) : 0.F;
      operator[]( ROLL )  = 0.F;
  }
  auto normalized_angle( )const->pack<Args...>
  {
      auto copy = get_copy( );
      copy.normalize_angle( );
      return copy;
  }
  \<close>
\<close>

definition normalize_angle :: "nat \<Rightarrow> float memory \<Rightarrow> failure + float memory" where
  "normalize_angle this s =
     (if length (s ! this) \<noteq> 3 then Inl Static_assert_failed
      else
        let s1 = assign this PITCH
                   (if isfinite (elem this PITCH s)
                    then remainderf (elem this PITCH s) (Fin 360) else Fin 0) s;
            s2 = assign this YAW
                   (if isfinite (elem this YAW s1)
                    then remainderf (elem this YAW s1) (Fin 360) else Fin 0) s1;
            s3 = assign this ROLL (Fin 0) s2
        in Inr s3)"

definition normalized_angle :: "nat \<Rightarrow> float memory \<Rightarrow> failure + nat \<times> float memory" where
  "normalized_angle this s =
     (if length (s ! this) \<noteq> 3 then Inl Static_assert_failed
      else
        let (copy, s1) = get_copy this s
        in and_then (normalize_angle copy s1) (\<lambda>s2. Inr (copy, s2)))"

text \<open>
  \<^verbatim>\<open>
  auto normalize_length( )->void
  {
      const auto &length = get_length( );
      if( length != 0.F )
      {
          operator[]( PITCH ) /= length;
          operator[]( YAW )   /= length;
          operator[]( ROLL )  /= length;
      }
      else
      {
          operator[]( PITCH ) = operator[]( YAW ) = 0.F;
          operator[]( ROLL )  = 1.F;
      }
  }
  auto normalized_length( )const->pack<Args...>
  {
      auto copy = get_copy( );
      copy.normalize_length( );
      return copy;
  }
  \<close>
  \<open>normalize_length\<close> takes \<open>get_length( )\<close> (all \<open>Len\<close> components) once, before it
  writes. In the zero branch \<open>operator[]( PITCH ) = operator[]( YAW ) = 0.F\<close> assigns
  yaw first and pitch from it.
\<close>

definition normalize_length :: "nat \<Rightarrow> float memory \<Rightarrow> failure + float memory" where
  "normalize_length this s =
     (if length (s ! this) \<noteq> 3 then Inl Static_assert_failed
      else
        and_then (get_length (get_size (s ! this)) (s ! this)) (\<lambda>length.
          if fne length (Fin 0) then
            let s1 = assign this PITCH (fdiv (elem this PITCH s) length) s;
                s2 = assign this YAW (fdiv (elem this YAW s1) length) s1;
                s3 = assign this ROLL (fdiv (elem this ROLL s2) length) s2
            in Inr s3
          else
            let s1 = assign this YAW (Fin 0) s;
                s2 = assign this PITCH (elem this YAW s1) s1;
                s3 = assign this ROLL (Fin 1) s2
            in Inr s3))"

definition normalized_length :: "nat \<Rightarrow> float memory \<Rightarrow> failure + nat \<times> float memory" where
  "normalized_length this s =
     (if length (s ! this) \<noteq> 3 then Inl Static_assert_failed
      else
        let (copy, s1) = get_copy this s
        in and_then (normalize_length copy s1) (\<lambda>s2. Inr (copy, s2)))"

text \<open>
  \<^verbatim>\<open>
  auto get_angle( )const->pack<Args...>
  {
      auto forward = *this;
      auto angles  = pack<Args...>{};
      if( forward[ PITCH ] == 0.F && forward[ YAW ] == 0.F )
      {
          angles[ PITCH ] = angles[ ROLL ] > 0.F ? -90.F : 90.F;
          angles[ YAW ]   = 0.F;
      }
      else
      {
          angles[ PITCH ] = atan2( -forward[ ROLL ], forward.get_length<2>( ) )
                              * ( 180.F / M_PI );
      }
      return angles;
  }
  \<close>
  \<open>get_angle\<close> has no \<open>static_assert\<close> of its own: \<open>get_length<2>\<close> demands
  \<open>2 <= Len\<close>, and both branches index \<open>ROLL\<close>. \<open>forward\<close> is a copy of \<open>*this\<close> and
  \<open>angles\<close> a default-constructed pack, all zero.
\<close>

definition get_angle :: "nat \<Rightarrow> float memory \<Rightarrow> failure + nat \<times> float memory" where
  "get_angle this s =
     (if \<not> 2 \<le> length (s ! this) then Inl Static_assert_failed
      else if \<not> ROLL < length (s ! this) then Inl Out_of_range
      else
        let (forward, s1) = new_object (s ! this) s;
            (angles, s2) = new_object (replicate (length (s ! this)) 0) s1
        in
          if feq (elem forward PITCH s2) (Fin 0) \<and> feq (elem forward YAW s2) (Fin 0) then
            let s3 = assign angles PITCH
                       (if fgt (elem angles ROLL s2) (Fin 0) then Fin (- 90) else Fin 90) s2;
                s4 = assign angles YAW (Fin 0) s3
            in Inr (angles, s4)
          else
            and_then (get_length 2 (s2 ! forward)) (\<lambda>length2.
              let s3 = assign angles PITCH
                         (atan2 (fneg (elem forward ROLL s2)) length2 * fdiv (Fin 180) M_PI) s2
              in Inr (angles, s3)))"

text \<open>
  \<^verbatim>\<open>
  auto clamp_angle( )
  {
      operator[]( PITCH ) = std::clamp<float>( operator[]( PITCH ), -89.F, 89.F );
      operator[]( YAW )   = std::clamp<float>( operator[]( YAW ), -180.F, 180.F );
      operator[]( ROLL )  = 0.F;
  }
  \<close>
\<close>

definition clamp_angle :: "nat \<Rightarrow> float memory \<Rightarrow> failure + float memory" where
  "clamp_angle this s =
     (if length (s ! this) \<noteq> 3 then Inl Static_assert_failed
      else
        let s1 = assign this PITCH (clamp (elem this PITCH s) (Fin (- 89)) (Fin 89)) s;
            s2 = assign this YAW (clamp (elem this YAW s1) (Fin (- 180)) (Fin 180)) s1;
            s3 = assign this ROLL (Fin 0) s2
        in Inr s3)"


section \<open>CS:GO methods, second variant\<close>

text \<open>\<open>normalize\<close> is \<open>normalize_length\<close> of the first variant with the indices written
  as \<open>0u\<close>, \<open>1u\<close> and \<open>2u\<close>.\<close>

definition normalize :: "nat \<Rightarrow> float memory \<Rightarrow> failure + float memory" where
  "normalize this s =
     (if length (s ! this) \<noteq> 3 then Inl Static_assert_failed
      else
        and_then (get_length (get_size (s ! this)) (s ! this)) (\<lambda>length.
          if fne length (Fin 0) then
            let s1 = assign this 0 (fdiv (elem this 0 s) length) s;
                s2 = assign this 1 (fdiv (elem this 1 s1) length) s1;
                s3 = assign this 2 (fdiv (elem this 2 s2) length) s2
            in Inr s3
          else
            let s1 = assign this 1 (Fin 0) s;
                s2 = assign this 0 (elem this 1 s1) s1;
                s3 = assign this 2 (Fin 1) s2
            in Inr s3))"

text \<open>
  \<^verbatim>\<open>
  auto normalized( )const->pack<Args...>
  {
      const auto &copy   = get_copy( );
      const auto &length = copy.get_length( );
      if( length != 0.F )
      {
          copy[ 0 ] /= length;
          copy[ 1 ] /= length;
          copy[ 2 ] /= length;
      }
      else
      {
          copy[ 0 ] = copy[ 1 ] = 0.F;
          copy[ 2 ] = 1.F;
      }
      return copy;
  }
  \<close>
  In \<open>normalized\<close> the copy is bound to \<open>const auto &copy\<close>, so each \<open>copy[ i ]\<close> is the
  const overload of \<open>operator[]\<close>, and \<open>copy[ i ] /= length\<close>, \<open>copy[ 1 ] = 0.F\<close>,
  \<open>copy[ 0 ] = ...\<close> and \<open>copy[ 2 ] = 1.F\<close> are assignments to a prvalue. The model
  puts the rejection at the statement that causes it; each branch starts with one, so
  no call of \<open>normalized\<close> on a pack of floats yields a pack. (The header itself never
  calls the method, so the header alone compiles.) \<open>return copy\<close> would copy the
  referenced object into the returned one.
\<close>

definition normalized :: "nat \<Rightarrow> float memory \<Rightarrow> failure + nat \<times> float memory" where
  "normalized this s =
     (if length (s ! this) \<noteq> 3 then Inl Static_assert_failed
      else
        let (copy, s1) = get_copy this s
        in and_then (get_length (get_size (s1 ! copy)) (s1 ! copy)) (\<lambda>length.
             if fne length (Fin 0) then
               and_then (assign_prvalue (fdiv (elem_const (s1 ! copy) 0) length)) (\<lambda>_.
               and_then (assign_prvalue (fdiv (elem_const (s1 ! copy) 1) length)) (\<lambda>_.
               and_then (assign_prvalue (fdiv (elem_const (s1 ! copy) 2) length)) (\<lambda>_.
                 Inr (new_object (s1 ! copy) s1))))
             else
               and_then (assign_prvalue (Fin 0)) (\<lambda>_.
               and_then (assign_prvalue (Fin 0)) (\<lambda>_.
               and_then (assign_prvalue (Fin 1)) (\<lambda>_.
                 Inr (new_object (s1 ! copy) s1))))))"


section \<open>Vocabulary of the specification\<close>

text \<open>
  A method "returns a fresh vector and leaves the receiver unchanged" when it succeeds,
  the pack it returns is at an address that held no object before the call, every
  object that existed before the call is as it was, and so is the receiver.
\<close>

definition returns_fresh :: "nat \<Rightarrow> 'a memory \<Rightarrow> failure + nat \<times> 'a memory \<Rightarrow> bool" where
  "returns_fresh this s r =
     (case r of
        Inl e \<Rightarrow> False
      | Inr (a, s') \<Rightarrow>
          length s \<le> a \<and> a < length s' \<and> take (length s) s' = s \<and> s' ! this = s ! this)"


text \<open>A float "is in \<open>[lo, hi]\<close>" when it is a number between the two bounds.\<close>

fun in_range :: "float \<Rightarrow> real \<Rightarrow> real \<Rightarrow> bool" where
  "in_range (Fin a) lo hi = (lo \<le> a \<and> a \<le> hi)"
| "in_range _ lo hi = False"


section \<open>The dot product of two packs\<close>

lemma dot_is_get_dot:
  "length arg = length this \<Longrightarrow> dot (length this) this arg = get_dot (length this) this"
  by (simp add: dot_def get_dot_def get_size_def get_contents_def)

text \<open>
  C1. The claim: for \<open>K\<close> up to the component count, \<open>a.dot<K>(b)\<close> is the sum of
  \<open>a[i] * b[i]\<close> over \<open>i < K\<close>. The code reads both factors from the receiver: on the
  \<open>unsigned\<close> packs \<open>a = (1, 2, 3)\<close> and \<open>b = (4, 5, 6)\<close> with \<open>K = 3\<close> it returns
  \<open>1 + 4 + 9 = 14\<close>, and the sum the claim names is \<open>4 + 10 + 18 = 32\<close>.
\<close>

theorem dot_reads_receiver_twice:
  "dot 3 [1, 2, 3 :: 32 word] [4, 5, 6] = Inr 14 \<and> spec_dot 3 [1, 2, 3 :: 32 word] [4, 5, 6] = 32"
  by (simp add: dot_def get_size_def get_contents_def spec_dot_def
      upt_rec [of 0] upt_rec [of 1] upt_rec [of 2] lessThan_Suc numeral_3_eq_3)

text \<open>
  C6. The claim: with the argument's component count at least \<open>K\<close>, \<open>dot<K>\<close> does not
  fail its assertion, also for \<open>K\<close> below the receiver's component count. The code
  asserts \<open>arg.get_size( ) <= N\<close>: on two packs of three components and \<open>K = 2\<close> the
  argument has \<open>3 \<ge> 2\<close> components and the assertion fails.
\<close>

theorem dot_prefix_assertion_fails:
  "2 \<le> length [4, 5, 6 :: 32 word] \<and> dot 2 [1, 2, 3 :: 32 word] [4, 5, 6] = Inl Assertion_failed"
  by (simp add: dot_def get_size_def)

text \<open>So it is on every prefix: between two packs of one type the assertion holds only
  for \<open>N = Len\<close>, while \<open>dot( T arg )\<close> takes any \<open>N\<close> up to \<open>Len\<close>.\<close>

lemma dot_asserts_whole_pack:
  "N < length this \<Longrightarrow> length arg = length this \<Longrightarrow> dot N this arg = Inl Assertion_failed"
  by (simp add: dot_def get_size_def)

lemma dot_scalar_takes_prefix:
  "N \<le> length this \<Longrightarrow> \<exists>r. dot_scalar N this arg = Inr r"
  by (simp add: dot_scalar_def)


section \<open>Closed forms of the methods on a pack of three floats\<close>

lemma zero_plus_float: "(0 :: float) + x = x"
  by (cases x) (simp_all add: zero_float_def)

lemma pack_of_three: "length v = 3 \<Longrightarrow> \<exists>a b c. v = [a, b, c]"
  by (auto simp: length_Suc_conv numeral_3_eq_3)

lemma upt_0_3: "[0 ..< 3] = [0, 1, 2]"
  by (simp add: upt_rec numeral_3_eq_3)

lemma upt_0_2: "[0 ..< 2] = [0, 1]"
  by (simp add: upt_rec numeral_2_eq_2)

lemma get_length_3: "get_length 3 [a, b, c] = Inr (fsqrt (a * a + b * b + c * c))"
  by (simp add: get_length_def and_then_def get_dot_def get_contents_def upt_0_3 zero_plus_float)

lemma get_length_2: "get_length 2 [a, b, c] = Inr (fsqrt (a * a + b * b))"
  by (simp add: get_length_def and_then_def get_dot_def get_contents_def upt_0_2 zero_plus_float)

lemma get_length_Len:
  "get_length (Suc (Suc (Suc 0))) [a, b, c] = Inr (fsqrt (a * a + b * b + c * c))"
  using get_length_3 [of a b c] by (simp add: numeral_3_eq_3)

lemma update_second_new: "(s @ [a, b])[Suc (length s) := c] = s @ [a, c]"
  by (simp add: list_update_append)

lemma sqrt_25: "sqrt 25 = 5"
  by (rule real_sqrt_unique) simp_all

lemma normalize_angle_closed:
  assumes "this < length s" and "s ! this = [p, y, r]"
  shows "normalize_angle this s =
           Inr (s[this := [if isfinite p then remainderf p (Fin 360) else Fin 0,
                           if isfinite y then remainderf y (Fin 360) else Fin 0,
                           Fin 0]])"
  using assms
  by (simp add: normalize_angle_def elem_def assign_def PITCH_def YAW_def ROLL_def Let_def)

lemma normalize_length_closed:
  assumes "this < length s" and "s ! this = [p, y, r]"
  shows "normalize_length this s =
           Inr (s[this := (let l = fsqrt (p * p + y * y + r * r)
                           in if fne l (Fin 0) then [fdiv p l, fdiv y l, fdiv r l]
                              else [Fin 0, Fin 0, Fin 1])])"
  using assms
  by (simp add: normalize_length_def get_size_def get_length_Len and_then_def elem_def
      assign_def PITCH_def YAW_def ROLL_def Let_def)

lemma normalize_closed:
  assumes "this < length s" and "s ! this = [p, y, r]"
  shows "normalize this s =
           Inr (s[this := (let l = fsqrt (p * p + y * y + r * r)
                           in if fne l (Fin 0) then [fdiv p l, fdiv y l, fdiv r l]
                              else [Fin 0, Fin 0, Fin 1])])"
  using assms
  by (simp add: normalize_def get_size_def get_length_Len and_then_def elem_def assign_def
      Let_def)

lemma clamp_angle_closed:
  assumes "this < length s" and "s ! this = [p, y, r]"
  shows "clamp_angle this s =
           Inr (s[this := [clamp p (Fin (- 89)) (Fin 89), clamp y (Fin (- 180)) (Fin 180),
                           Fin 0]])"
  using assms
  by (simp add: clamp_angle_def elem_def assign_def PITCH_def YAW_def ROLL_def Let_def)

lemma get_angle_closed:
  assumes "this < length s" and "s ! this = [p, y, r]"
  shows "get_angle this s =
           Inr (length s + 1,
                s @ [[p, y, r],
                     if feq p (Fin 0) \<and> feq y (Fin 0) then [Fin 90, Fin 0, Fin 0]
                     else [atan2 (fneg r) (fsqrt (p * p + y * y)) * fdiv (Fin 180) M_PI,
                           Fin 0, Fin 0]])"
  using assms
  by (simp add: get_angle_def new_object_def get_length_2 and_then_def elem_def assign_def
      PITCH_def YAW_def ROLL_def Let_def nth_append fgt_def zero_float_def numeral_3_eq_3
      update_second_new)

lemma normalized_closed:
  assumes "s ! this = [p, y, r]"
  shows "normalized this s = Inl Assignment_to_prvalue"
  using assms
  by (simp add: normalized_def get_copy_def new_object_def get_size_def get_length_Len
      and_then_def assign_prvalue_def)

lemma normalized_angle_closed:
  assumes "this < length s" and "s ! this = [p, y, r]"
  shows "normalized_angle this s =
           Inr (length s,
                s @ [[if isfinite p then remainderf p (Fin 360) else Fin 0,
                      if isfinite y then remainderf y (Fin 360) else Fin 0,
                      Fin 0]])"
  using assms
  by (simp add: normalized_angle_def get_copy_def new_object_def and_then_def
      normalize_angle_closed [where p = p and y = y and r = r])

lemma normalized_length_closed:
  assumes "this < length s" and "s ! this = [p, y, r]"
  shows "normalized_length this s =
           Inr (length s,
                s @ [let l = fsqrt (p * p + y * y + r * r)
                     in if fne l (Fin 0) then [fdiv p l, fdiv y l, fdiv r l]
                        else [Fin 0, Fin 0, Fin 1]])"
  using assms
  by (simp add: normalized_length_def get_copy_def new_object_def and_then_def
      normalize_length_closed [where p = p and y = y and r = r])


section \<open>The remainder by 360\<close>

lemma nearest_even_bound: "\<bar>q - of_int (nearest_even q)\<bar> \<le> 1 / 2"
  unfolding nearest_even_def Let_def by (auto; linarith)

lemma nearest_even_small:
  assumes "\<bar>q\<bar> \<le> 1 / 2"
  shows "nearest_even q = 0"
proof -
  have "\<lfloor>q\<rfloor> = 0 \<or> \<lfloor>q\<rfloor> = - 1"
    using assms by linarith
  then show ?thesis
  proof
    assume "\<lfloor>q\<rfloor> = 0"
    then show ?thesis
      using assms by (simp add: nearest_even_def Let_def)
  next
    assume below: "\<lfloor>q\<rfloor> = - 1"
    then have "q < 0"
      by linarith
    then show ?thesis
      using assms below by (auto simp add: nearest_even_def Let_def)
  qed
qed

lemma remainderf_360_range: "\<exists>r. remainderf (Fin a) (Fin 360) = Fin r \<and> \<bar>r\<bar> \<le> 180"
proof -
  have "\<bar>a / 360 - of_int (nearest_even (a / 360))\<bar> \<le> 1 / 2"
    by (rule nearest_even_bound)
  then have "\<bar>a - of_int (nearest_even (a / 360)) * 360\<bar> \<le> 180"
    by (simp add: abs_le_iff field_simps)
  then show ?thesis
    by simp
qed

lemma remainderf_360_fixed:
  assumes "\<bar>r\<bar> \<le> 180"
  shows "remainderf (Fin r) (Fin 360) = Fin r"
proof -
  have "\<bar>r / 360\<bar> \<le> 1 / 2"
    using assms by simp
  then have "nearest_even (r / 360) = 0"
    by (rule nearest_even_small)
  then show ?thesis
    by simp
qed

lemma wrapped_is_fixed:
  assumes "w = (if isfinite x then remainderf x (Fin 360) else Fin 0)"
  shows "(if isfinite w then remainderf w (Fin 360) else Fin 0) = w"
proof (cases x)
  case (Fin a)
  obtain r where "remainderf (Fin a) (Fin 360) = Fin r" and "\<bar>r\<bar> \<le> 180"
    using remainderf_360_range by blast
  then show ?thesis
    using assms Fin by (simp add: remainderf_360_fixed del: remainderf.simps)
qed (simp_all add: assms remainderf_360_fixed del: remainderf.simps)

lemma clamp_range:
  assumes "v \<noteq> NaN" and "lo \<le> hi"
  shows "in_range (clamp v (Fin lo) (Fin hi)) lo hi"
  using assms by (cases v) (auto simp: clamp_def)

lemma clamp_NaN: "clamp NaN lo hi = NaN"
  by (cases hi) (simp_all add: clamp_def)


section \<open>Angles\<close>

text \<open>
  C7. On every pack of three floats \<open>normalize_angle\<close> succeeds and replaces pitch and
  yaw each by its \<open>remainderf\<close> by 360 when it is finite and by 0 when it is not, and
  sets roll to 0. In particular \<open>(NaN, 10, 5)\<close> becomes \<open>(0, 10, 0)\<close>.
\<close>

theorem normalize_angle_wraps:
  assumes "this < length s" and "s ! this = [pitch, yaw, roll]"
  shows "normalize_angle this s =
           Inr (s[this := [if isfinite pitch then remainderf pitch (Fin 360) else Fin 0,
                           if isfinite yaw then remainderf yaw (Fin 360) else Fin 0,
                           Fin 0]])
         \<and> normalize_angle 0 [[NaN, Fin 10, Fin 5]] = Inr [[Fin 0, Fin 10, Fin 0]]"
proof
  show "normalize_angle this s =
           Inr (s[this := [if isfinite pitch then remainderf pitch (Fin 360) else Fin 0,
                           if isfinite yaw then remainderf yaw (Fin 360) else Fin 0,
                           Fin 0]])"
    using assms by (rule normalize_angle_closed)
  have "normalize_angle 0 [[NaN, Fin 10, Fin 5]] =
          Inr ([[NaN, Fin 10, Fin 5]]
                 [0 := [if isfinite NaN then remainderf NaN (Fin 360) else Fin 0,
                        if isfinite (Fin 10) then remainderf (Fin 10) (Fin 360) else Fin 0,
                        Fin 0]])"
    by (rule normalize_angle_closed) simp_all
  then show "normalize_angle 0 [[NaN, Fin 10, Fin 5]] = Inr [[Fin 0, Fin 10, Fin 0]]"
    by (simp add: remainderf_360_fixed del: remainderf.simps)
qed

theorem normalize_angle_wraps_witness:
  "(0 :: nat) < length [[Fin 450, PInf, Fin 123]]
   \<and> [[Fin 450, PInf, Fin 123]] ! 0 = [Fin 450, PInf, Fin 123]
   \<and> normalize_angle 0 [[Fin 450, PInf, Fin 123]] = Inr [[Fin 90, Fin 0, Fin 0]]"
  using normalize_angle_wraps [of 0 "[[Fin 450, PInf, Fin 123]]" "Fin 450" PInf "Fin 123"]
  by (simp add: nearest_even_def)

text \<open>
  C8. \<open>normalize_angle\<close> is idempotent on a pack of three finite floats: the first call
  succeeds, and a second call on its result succeeds and changes nothing.
\<close>

theorem normalize_angle_idempotent:
  assumes "this < length s" and "s ! this = [pitch, yaw, roll]"
    and "isfinite pitch" and "isfinite yaw" and "isfinite roll"
  shows "\<exists>s'. normalize_angle this s = Inr s' \<and> normalize_angle this s' = Inr s'"
proof -
  define p where "p = (if isfinite pitch then remainderf pitch (Fin 360) else Fin 0)"
  define y where "y = (if isfinite yaw then remainderf yaw (Fin 360) else Fin 0)"
  let ?s' = "s[this := [p, y, Fin 0]]"
  have once: "normalize_angle this s = Inr ?s'"
    unfolding p_def y_def using assms(1,2) by (rule normalize_angle_closed)
  have "this < length ?s'" and "?s' ! this = [p, y, Fin 0]"
    using assms(1) by simp_all
  then have "normalize_angle this ?s' =
      Inr (?s'[this := [if isfinite p then remainderf p (Fin 360) else Fin 0,
                        if isfinite y then remainderf y (Fin 360) else Fin 0,
                        Fin 0]])"
    by (rule normalize_angle_closed)
  moreover have "(if isfinite p then remainderf p (Fin 360) else Fin 0) = p"
    using p_def by (rule wrapped_is_fixed)
  moreover have "(if isfinite y then remainderf y (Fin 360) else Fin 0) = y"
    using y_def by (rule wrapped_is_fixed)
  ultimately have "normalize_angle this ?s' = Inr ?s'"
    by simp
  with once show ?thesis
    by blast
qed

theorem normalize_angle_idempotent_witness:
  "(0 :: nat) < length [[Fin 450, Fin (- 450), Fin 123]]
   \<and> isfinite (Fin 450) \<and> isfinite (Fin (- 450)) \<and> isfinite (Fin 123)
   \<and> normalize_angle 0 [[Fin 450, Fin (- 450), Fin 123]] = Inr [[Fin 90, Fin (- 90), Fin 0]]
   \<and> normalize_angle 0 [[Fin 90, Fin (- 90), Fin 0]] = Inr [[Fin 90, Fin (- 90), Fin 0]]"
  using normalize_angle_idempotent
    [of 0 "[[Fin 450, Fin (- 450), Fin 123]]" "Fin 450" "Fin (- 450)" "Fin 123"]
  by (simp add: normalize_angle_def assign_def elem_def PITCH_def YAW_def ROLL_def
      nearest_even_def)

text \<open>
  C9, as amended. On every pack of three floats \<open>clamp_angle\<close> succeeds, replaces pitch
  by \<open>std::clamp\<close> of it between -89 and 89 and yaw by \<open>std::clamp\<close> of it between
  -180 and 180, and sets roll to 0. A pitch that is not NaN, the infinities included,
  ends in \<open>[-89, 89]\<close> and a yaw that is not NaN in \<open>[-180, 180]\<close>; a NaN pitch or yaw
  stays NaN. \<open>(95, 200, 7)\<close> becomes \<open>(89, 180, 0)\<close> and \<open>(-95, -200, 7)\<close> becomes
  \<open>(-89, -180, 0)\<close>.
\<close>

theorem clamp_angle_clamps:
  assumes "this < length s" and "s ! this = [pitch, yaw, roll]"
  shows "clamp_angle this s =
           Inr (s[this := [clamp pitch (Fin (- 89)) (Fin 89),
                           clamp yaw (Fin (- 180)) (Fin 180),
                           Fin 0]])
         \<and> (pitch \<noteq> NaN \<longrightarrow> in_range (clamp pitch (Fin (- 89)) (Fin 89)) (- 89) 89)
         \<and> (yaw \<noteq> NaN \<longrightarrow> in_range (clamp yaw (Fin (- 180)) (Fin 180)) (- 180) 180)
         \<and> (pitch = NaN \<longrightarrow> clamp pitch (Fin (- 89)) (Fin 89) = NaN)
         \<and> (yaw = NaN \<longrightarrow> clamp yaw (Fin (- 180)) (Fin 180) = NaN)
         \<and> clamp_angle 0 [[Fin 95, Fin 200, Fin 7]] = Inr [[Fin 89, Fin 180, Fin 0]]
         \<and> clamp_angle 0 [[Fin (- 95), Fin (- 200), Fin 7]] =
             Inr [[Fin (- 89), Fin (- 180), Fin 0]]"
proof (intro conjI impI)
  show "clamp_angle this s =
           Inr (s[this := [clamp pitch (Fin (- 89)) (Fin 89),
                           clamp yaw (Fin (- 180)) (Fin 180),
                           Fin 0]])"
    using assms by (rule clamp_angle_closed)
  show "in_range (clamp pitch (Fin (- 89)) (Fin 89)) (- 89) 89" if "pitch \<noteq> NaN"
    using that by (rule clamp_range) simp
  show "in_range (clamp yaw (Fin (- 180)) (Fin 180)) (- 180) 180" if "yaw \<noteq> NaN"
    using that by (rule clamp_range) simp
  show "clamp pitch (Fin (- 89)) (Fin 89) = NaN" if "pitch = NaN"
    using that by (simp add: clamp_NaN)
  show "clamp yaw (Fin (- 180)) (Fin 180) = NaN" if "yaw = NaN"
    using that by (simp add: clamp_NaN)
  show "clamp_angle 0 [[Fin 95, Fin 200, Fin 7]] = Inr [[Fin 89, Fin 180, Fin 0]]"
    by (simp add: clamp_angle_closed [of 0 _ "Fin 95" "Fin 200" "Fin 7"] clamp_def)
  show "clamp_angle 0 [[Fin (- 95), Fin (- 200), Fin 7]] =
          Inr [[Fin (- 89), Fin (- 180), Fin 0]]"
    by (simp add: clamp_angle_closed [of 0 _ "Fin (- 95)" "Fin (- 200)" "Fin 7"] clamp_def)
qed

theorem clamp_angle_clamps_witness:
  "(0 :: nat) < length [[PInf, NaN, NInf]]
   \<and> [[PInf, NaN, NInf]] ! 0 = [PInf, NaN, NInf]
   \<and> PInf \<noteq> NaN \<and> in_range (Fin 89) (- 89) 89
   \<and> clamp_angle 0 [[PInf, NaN, NInf]] = Inr [[Fin 89, NaN, Fin 0]]"
  using clamp_angle_clamps [of 0 "[[PInf, NaN, NInf]]" PInf NaN NInf]
  by (simp add: clamp_def)

text \<open>
  C9 as it was stated has every pack clamped into the two intervals. On
  \<open>(NaN, NaN, 7)\<close> both tests of \<open>std::clamp\<close> are false, so pitch and yaw stay NaN,
  which is in neither interval.
\<close>

theorem clamp_angle_keeps_NaN:
  "clamp_angle 0 [[NaN, NaN, Fin 7]] = Inr [[NaN, NaN, Fin 0]]
   \<and> \<not> in_range NaN (- 89) 89 \<and> \<not> in_range NaN (- 180) 180"
  by (simp add: clamp_angle_closed [of 0 _ NaN NaN "Fin 7"] clamp_def)

text \<open>
  C3. On every pack \<open>(x, y, z)\<close> of three floats \<open>get_angle\<close> succeeds and returns a new
  pack: \<open>(90, 0, 0)\<close> when \<open>x\<close> and \<open>y\<close> both compare equal to zero (the roll of the
  new pack is 0, so the test for -90 fails), and otherwise
  \<open>(atan2(-z, l) * (180 / M_PI), 0, 0)\<close>, where \<open>l\<close> is \<open>get_length<2>( )\<close>, the length
  of \<open>(x, y)\<close>. The new pack lies behind the objects that existed before.
\<close>

theorem get_angle_result:
  assumes "this < length s" and "s ! this = [x, y, z]"
  shows "get_angle this s =
           Inr (length s + 1,
                s @ [[x, y, z],
                     if feq x (Fin 0) \<and> feq y (Fin 0) then [Fin 90, Fin 0, Fin 0]
                     else [atan2 (fneg z) (fsqrt (x * x + y * y)) * fdiv (Fin 180) M_PI,
                           Fin 0, Fin 0]])
         \<and> get_length 2 (s ! this) = Inr (fsqrt (x * x + y * y))"
  using get_angle_closed [OF assms] assms(2) by (simp add: get_length_2)

theorem get_angle_result_witness:
  "(0 :: nat) < length [[Fin 0, Fin 0, Fin 5]]
   \<and> [[Fin 0, Fin 0, Fin 5]] ! 0 = [Fin 0, Fin 0, Fin 5]
   \<and> get_angle 0 [[Fin 0, Fin 0, Fin 5]] =
       Inr (2, [[Fin 0, Fin 0, Fin 5], [Fin 0, Fin 0, Fin 5], [Fin 90, Fin 0, Fin 0]])"
  using get_angle_result [of 0 "[[Fin 0, Fin 0, Fin 5]]" "Fin 0" "Fin 0" "Fin 5"]
  by simp

text \<open>The other branch, on \<open>(3, 4, -5)\<close>: \<open>atan2(5, 5)\<close> is 45 degrees.\<close>

lemma get_angle_slope:
  "get_angle 0 [[Fin 3, Fin 4, Fin (- 5)]] =
     Inr (2, [[Fin 3, Fin 4, Fin (- 5)], [Fin 3, Fin 4, Fin (- 5)], [Fin 45, Fin 0, Fin 0]])"
  using get_angle_closed [of 0 "[[Fin 3, Fin 4, Fin (- 5)]]" "Fin 3" "Fin 4" "Fin (- 5)"]
  by (simp add: sqrt_25 M_PI_def arctan_one)


section \<open>Normalising the length\<close>

text \<open>
  C2, as amended. On every pack of three floats \<open>normalize_length\<close> succeeds; with
  \<open>l\<close> the \<open>get_length( )\<close> of the pack, it divides pitch, yaw and roll, all three, by
  \<open>l\<close> when \<open>l != 0\<close>, and sets pitch and yaw to 0 and roll to 1 otherwise. In
  particular \<open>normalized_length\<close> on \<open>(3, 4, 0)\<close> returns a new pack \<open>(0.6, 0.8, 0)\<close>.
\<close>

theorem normalize_length_divides_all:
  assumes "this < length s" and "s ! this = [pitch, yaw, roll]"
  shows "(\<exists>l. get_length 3 (s ! this) = Inr l
            \<and> normalize_length this s =
                Inr (s[this := (if fne l (Fin 0) then [fdiv pitch l, fdiv yaw l, fdiv roll l]
                                else [Fin 0, Fin 0, Fin 1])]))
         \<and> normalized_length 0 [[Fin 3, Fin 4, Fin 0]] =
             Inr (1, [[Fin 3, Fin 4, Fin 0], [Fin (6 / 10), Fin (8 / 10), Fin 0]])"
proof
  show "\<exists>l. get_length 3 (s ! this) = Inr l
            \<and> normalize_length this s =
                Inr (s[this := (if fne l (Fin 0) then [fdiv pitch l, fdiv yaw l, fdiv roll l]
                                else [Fin 0, Fin 0, Fin 1])])"
    using normalize_length_closed [OF assms] assms(2) by (simp add: get_length_3 Let_def)
  have "normalized_length 0 [[Fin 3, Fin 4, Fin 0]] =
          Inr (length [[Fin 3, Fin 4, Fin 0]],
               [[Fin 3, Fin 4, Fin 0]]
               @ [let l = fsqrt (Fin 3 * Fin 3 + Fin 4 * Fin 4 + Fin 0 * Fin 0)
                  in if fne l (Fin 0) then [fdiv (Fin 3) l, fdiv (Fin 4) l, fdiv (Fin 0) l]
                     else [Fin 0, Fin 0, Fin 1]])"
    by (rule normalized_length_closed) simp_all
  then show "normalized_length 0 [[Fin 3, Fin 4, Fin 0]] =
               Inr (1, [[Fin 3, Fin 4, Fin 0], [Fin (6 / 10), Fin (8 / 10), Fin 0]])"
    by (simp add: sqrt_25 fne_def)
qed

theorem normalize_length_divides_all_witness:
  "(0 :: nat) < length [[Fin 0, Fin 0, Fin 0]]
   \<and> [[Fin 0, Fin 0, Fin 0]] ! 0 = [Fin 0, Fin 0, Fin 0]
   \<and> get_length 3 [Fin 0, Fin 0, Fin 0] = Inr (Fin 0)
   \<and> normalize_length 0 [[Fin 0, Fin 0, Fin 0]] = Inr [[Fin 0, Fin 0, Fin 1]]"
  using normalize_length_divides_all [of 0 "[[Fin 0, Fin 0, Fin 0]]" "Fin 0" "Fin 0" "Fin 0"]
  by (auto simp add: get_length_3 fne_def)

text \<open>
  C2 as it was stated has \<open>normalize_length\<close> leave roll untouched when the length is
  not zero. The pack \<open>(0, 3, 4)\<close> has length 5, and \<open>normalize_length\<close> turns its roll
  from 4 into 0.8.
\<close>

theorem normalize_length_divides_roll:
  "get_length 3 [Fin 0, Fin 3, Fin 4] = Inr (Fin 5)
   \<and> fne (Fin 5) (Fin 0)
   \<and> normalize_length 0 [[Fin 0, Fin 3, Fin 4]] = Inr [[Fin 0, Fin (3 / 5), Fin (4 / 5)]]
   \<and> Fin (4 / 5) \<noteq> Fin 4"
  by (simp add: get_length_3 fne_def sqrt_25
      normalize_length_closed [of 0 _ "Fin 0" "Fin 3" "Fin 4"])

text \<open>
  C4. The claim: \<open>normalize\<close> divides the three components by the length in place (or
  stores \<open>(0, 0, 1)\<close> at length zero), and \<open>normalized\<close> returns that result as a copy.
  The code of \<open>normalize\<close> does so: \<open>(3, 4, 0)\<close> becomes \<open>(0.6, 0.8, 0)\<close>. The code of
  \<open>normalized\<close> assigns to the prvalues \<open>copy[ i ]\<close>: a program that calls it on
  \<open>(3, 4, 0)\<close> is rejected and no pack \<open>(0.6, 0.8, 0)\<close> is returned, where
  \<open>normalized_length\<close> of the first variant, with \<open>auto copy\<close>, returns it.
\<close>

theorem normalized_returns_no_pack:
  "normalize 0 [[Fin 3, Fin 4, Fin 0]] = Inr [[Fin (6 / 10), Fin (8 / 10), Fin 0]]
   \<and> normalized 0 [[Fin 3, Fin 4, Fin 0]] = Inl Assignment_to_prvalue
   \<and> normalized_length 0 [[Fin 3, Fin 4, Fin 0]] =
       Inr (1, [[Fin 3, Fin 4, Fin 0], [Fin (6 / 10), Fin (8 / 10), Fin 0]])"
  by (simp add: sqrt_25 fne_def normalize_closed [of 0 _ "Fin 3" "Fin 4" "Fin 0"]
      normalized_closed [of _ 0 "Fin 3" "Fin 4" "Fin 0"]
      normalized_length_closed [of 0 _ "Fin 3" "Fin 4" "Fin 0"])





section \<open>The receiver of a method that returns a pack\<close>

lemma returns_fresh_append:
  "this < length s \<Longrightarrow> length s \<le> a \<Longrightarrow> a < length s + length new \<Longrightarrow>
   returns_fresh this s (Inr (a, s @ new))"
  by (simp add: returns_fresh_def nth_append)

text \<open>
  C10. \<open>get_copy\<close> returns a new object with the value of the receiver and leaves the
  receiver as it was; whatever is then stored in the copy, as a whole or through
  \<open>operator[]\<close>, the receiver keeps its value. On a pack of three floats
  \<open>normalized_angle\<close>, \<open>normalized_length\<close> and \<open>get_angle\<close> each succeed and return a
  new object, with the receiver and every other earlier object unchanged.
\<close>

theorem copies_leave_receiver:
  assumes "this < length s"
  shows "(case get_copy this s of
            (c, s') \<Rightarrow> c \<noteq> this \<and> s' ! c = s ! this \<and> s' ! this = s ! this
                      \<and> (\<forall>w. s'[c := w] ! this = s ! this)
                      \<and> (\<forall>i x. assign c i x s' ! this = s ! this))
         \<and> (length (s ! this) = 3 \<longrightarrow>
              returns_fresh this s (normalized_angle this s)
              \<and> returns_fresh this s (normalized_length this s)
              \<and> returns_fresh this s (get_angle this s))"
proof (intro conjI impI)
  show "case get_copy this s of
            (c, s') \<Rightarrow> c \<noteq> this \<and> s' ! c = s ! this \<and> s' ! this = s ! this
                      \<and> (\<forall>w. s'[c := w] ! this = s ! this)
                      \<and> (\<forall>i x. assign c i x s' ! this = s ! this)"
    using assms by (simp add: get_copy_def new_object_def assign_def nth_append)
next
  assume "length (s ! this) = 3"
  then obtain p y r where v: "s ! this = [p, y, r]"
    using pack_of_three by blast
  show "returns_fresh this s (normalized_angle this s)"
    using assms by (simp add: normalized_angle_closed [OF assms v] returns_fresh_append)
  show "returns_fresh this s (normalized_length this s)"
    using assms by (simp add: normalized_length_closed [OF assms v] returns_fresh_append)
  show "returns_fresh this s (get_angle this s)"
    using assms by (simp add: get_angle_closed [OF assms v] returns_fresh_append)
qed

theorem copies_leave_receiver_witness:
  "(0 :: nat) < length [[Fin 400, Fin 0, Fin 3]]
   \<and> length ([[Fin 400, Fin 0, Fin 3]] ! 0) = 3
   \<and> get_copy 0 [[Fin 400, Fin 0, Fin 3]] =
       (1, [[Fin 400, Fin 0, Fin 3], [Fin 400, Fin 0, Fin 3]])
   \<and> normalized_angle 0 [[Fin 400, Fin 0, Fin 3]] =
       Inr (1, [[Fin 400, Fin 0, Fin 3], [Fin 40, Fin 0, Fin 0]])
   \<and> returns_fresh 0 [[Fin 400, Fin 0, Fin 3]] (normalized_angle 0 [[Fin 400, Fin 0, Fin 3]])
   \<and> returns_fresh 0 [[Fin 400, Fin 0, Fin 3]] (normalized_length 0 [[Fin 400, Fin 0, Fin 3]])
   \<and> returns_fresh 0 [[Fin 400, Fin 0, Fin 3]] (get_angle 0 [[Fin 400, Fin 0, Fin 3]])"
  using copies_leave_receiver [of 0 "[[Fin 400, Fin 0, Fin 3]]"]
    normalized_angle_closed [of 0 "[[Fin 400, Fin 0, Fin 3]]" "Fin 400" "Fin 0" "Fin 3"]
  by (simp add: get_copy_def new_object_def nearest_even_def)

end
